theory Spec2Isabelle
  imports Complex_Main "HOL-Library.Sublist"
begin

section \<open>Text\<close>

text \<open>
  Python strings are modelled as their UTF-8 bytes. On a text of ASCII characters
  \<open>str.lower\<close> maps the capitals A to Z to the small letters and nothing else; on any
  other text it is a parameter of the model (see below). \<open>latin1_lower\<close> is one such
  function: it lowercases ASCII and the Latin-1 capitals (U+00C0 to U+00DE without U+00D7,
  the two-byte sequences \<open>C3 80\<close> to \<open>C3 9E\<close>), which covers the Norwegian letters of
  the keyword lists.
\<close>

definition lower_char :: "char \<Rightarrow> char" where
  "lower_char c =
     (case map_of (zip ''ABCDEFGHIJKLMNOPQRSTUVWXYZ'' ''abcdefghijklmnopqrstuvwxyz'') c of
        Some d \<Rightarrow> d
      | None \<Rightarrow> c)"

definition latin1_capitals :: "(char \<times> char) list" where
  "latin1_capitals = zip
     [CHR 0x80, CHR 0x81, CHR 0x82, CHR 0x83, CHR 0x84, CHR 0x85, CHR 0x86, CHR 0x87,
      CHR 0x88, CHR 0x89, CHR 0x8A, CHR 0x8B, CHR 0x8C, CHR 0x8D, CHR 0x8E, CHR 0x8F,
      CHR 0x90, CHR 0x91, CHR 0x92, CHR 0x93, CHR 0x94, CHR 0x95, CHR 0x96, CHR 0x98,
      CHR 0x99, CHR 0x9A, CHR 0x9B, CHR 0x9C, CHR 0x9D, CHR 0x9E]
     [CHR 0xA0, CHR 0xA1, CHR 0xA2, CHR 0xA3, CHR 0xA4, CHR 0xA5, CHR 0xA6, CHR 0xA7,
      CHR 0xA8, CHR 0xA9, CHR 0xAA, CHR 0xAB, CHR 0xAC, CHR 0xAD, CHR 0xAE, CHR 0xAF,
      CHR 0xB0, CHR 0xB1, CHR 0xB2, CHR 0xB3, CHR 0xB4, CHR 0xB5, CHR 0xB6, CHR 0xB8,
      CHR 0xB9, CHR 0xBA, CHR 0xBB, CHR 0xBC, CHR 0xBD, CHR 0xBE]"

fun latin1_lower :: "string \<Rightarrow> string" where
  "latin1_lower [] = []"
| "latin1_lower [c] = [lower_char c]"
| "latin1_lower (c # d # cs) =
     (if c = CHR 0xC3 then
        (case map_of latin1_capitals d of
           Some d' \<Rightarrow> c # d' # latin1_lower cs
         | None \<Rightarrow> c # latin1_lower (d # cs))
      else lower_char c # latin1_lower (d # cs))"

definition is_ascii :: "char \<Rightarrow> bool" where
  "is_ascii c = (\<not> digit7 c)"

text \<open>\<open>needle in hay\<close> on strings: \<open>needle\<close> occurs as a contiguous run of \<open>hay\<close>.\<close>

fun contains :: "string \<Rightarrow> string \<Rightarrow> bool" where
  "contains needle [] = (needle = [])"
| "contains needle (c # cs) = (prefix needle (c # cs) \<or> contains needle cs)"

text \<open>\<open>s.replace(old, '')\<close> for a non-empty \<open>old\<close>: every occurrence, left to right.\<close>

fun remove_all :: "string \<Rightarrow> string \<Rightarrow> string" where
  "remove_all old [] = []"
| "remove_all old (c # cs) =
     (if old \<noteq> [] \<and> prefix old (c # cs)
      then remove_all old (drop (length old) (c # cs))
      else c # remove_all old cs)"

section \<open>Tables\<close>

text \<open>
  A cell of a data frame as \<open>read_csv\<close> and the later conversions produce it: a finite
  number (kept as an exact rational: the rounding of float64 is outside the model), an
  infinity (\<open>Infty True\<close> is the negative one), a text, a timestamp (after \<open>to_datetime\<close>;
  the integer is its encoding), or the missing value (NaN, NaT). Boolean columns are not
  modelled. A frame is the ordered list of its columns, each a name with its cells.
\<close>

datatype cell = Num rat | Infty bool | Str string | Stamp int | Null

type_synonym column = "string \<times> cell list"
type_synonym frame = "column list"

datatype error = IndexError | KeyError string | ValueError | AttributeError

definition columns :: "frame \<Rightarrow> string list" where
  "columns df = map fst df"

text \<open>
  \<open>df[name]\<close> read as one column. No column of that name raises KeyError. With several
  columns of that name pandas returns a frame, and each use the program makes of it
  raises: \<open>to_datetime\<close> of a frame without year, month and day columns and the
  assignment of the per-column result of \<open>apply\<close> raise ValueError, \<open>.dtype\<close> of a frame
  raises AttributeError. The caller passes the error of its use.
\<close>

definition getcol :: "error \<Rightarrow> frame \<Rightarrow> string \<Rightarrow> error + cell list" where
  "getcol dup df name =
     (case filter (\<lambda>c. fst c = name) df of
        [] \<Rightarrow> Inl (KeyError name)
      | [c] \<Rightarrow> Inr (snd c)
      | _ \<Rightarrow> Inl dup)"

text \<open>\<open>df[name] = cells\<close>: overwrites the columns of that name in place, else appends one.\<close>

definition setcol :: "frame \<Rightarrow> string \<Rightarrow> cell list \<Rightarrow> frame" where
  "setcol df name cells =
     (if name \<in> set (columns df)
      then map (\<lambda>c. if fst c = name then (name, cells) else c) df
      else df @ [(name, cells)])"

text \<open>\<open>df.rename(columns=m)\<close>: every column whose name is a key of \<open>m\<close> is renamed.\<close>

definition rename :: "(string \<rightharpoonup> string) \<Rightarrow> frame \<Rightarrow> frame" where
  "rename m df = map (\<lambda>c. (case m (fst c) of Some n \<Rightarrow> n | None \<Rightarrow> fst c, snd c)) df"

text \<open>
  The dictionary \<open>{k: v}\<close> whose key may be \<open>None\<close>: no column is named \<open>None\<close>, so that
  entry renames nothing.
\<close>

definition entry :: "string option \<Rightarrow> string \<Rightarrow> (string \<rightharpoonup> string)" where
  "entry k v = (case k of None \<Rightarrow> Map.empty | Some n \<Rightarrow> [n \<mapsto> v])"

text \<open>\<open>next((c for c in cols if p(c)), None)\<close>.\<close>

definition next_col :: "(string \<Rightarrow> bool) \<Rightarrow> string list \<Rightarrow> string option" where
  "next_col p cols = find p cols"

section \<open>Library functions taken as parameters\<close>

text \<open>
  Four functions of the Python and pandas libraries are parameters of the model:
  \<open>str_lower\<close>, what \<open>str.lower\<close> makes of a text that has a non-ASCII character;
  \<open>scalar_str\<close>, the text \<open>str\<close> gives for a number, an infinity or a timestamp;
  \<open>parse_datetime\<close>, what \<open>to_datetime\<close> makes of one text or number of the column it
  converts (pandas chooses the format once for the column; \<open>None\<close> stands for the
  ValueError it raises on a cell it cannot read); and \<open>out_of_range\<close>, the float that
  stands for a decimal beyond the range of float64.
\<close>

record pandas =
  str_lower :: "string \<Rightarrow> string"
  scalar_str :: "cell \<Rightarrow> string"
  parse_datetime :: "cell \<Rightarrow> int option"
  out_of_range :: "rat \<Rightarrow> cell"

text \<open>\<open>s.lower()\<close>.\<close>

definition lower :: "pandas \<Rightarrow> string \<Rightarrow> string" where
  "lower L s = (if list_all is_ascii s then map lower_char s else str_lower L s)"

text \<open>\<open>str(x)\<close>, also what \<open>astype(str)\<close> does to each cell: NaN prints as \<open>nan\<close>.\<close>

definition py_str :: "pandas \<Rightarrow> cell \<Rightarrow> string" where
  "py_str L c = (case c of Str s \<Rightarrow> s | Null \<Rightarrow> ''nan'' | _ \<Rightarrow> scalar_str L c)"

section \<open>Categorizer\<close>

definition any_in :: "string list \<Rightarrow> string \<Rightarrow> bool" where
  "any_in keywords desc = list_ex (\<lambda>x. contains x desc) keywords"

definition oe :: string where
  "oe = [CHR 0xC3, CHR 0xB8]"

definition savings_a :: string where "savings_a = ''kontoregulering''"
definition savings_b :: string where "savings_b = ''mobil overf'' @ oe @ ''ring''"

definition groceries_kw :: "string list" where
  "groceries_kw = [''meny'', ''rema'', ''kiwi'', ''bunnpris'', ''coop'', ''joker'',
     ''dagligvare'', ''extra'', ''spar'']"

definition dining_kw :: "string list" where
  "dining_kw = [''mcd'', ''burger'', ''sushi'', ''pizza'', ''restaurant'', ''cafe'',
     ''starbucks'', ''boba'', ''thai'', ''vaffel'', ''bakeri'', ''espresso'', ''tea'']"

definition transport_kw :: "string list" where
  "transport_kw = [''ruter'', ''vipps:ruter'', ''vy'', ''flytoget'', ''uber'', ''taxi'',
     ''bolt'', ''parkering'', ''easypark'', ''apcoa'', ''voi'', ''ryde'', ''dott'', ''buss'']"

definition entertainment_kw :: "string list" where
  "entertainment_kw = [''netflix'', ''hbo'', ''spotify'', ''kino'', ''steam'',
     ''playstation'', ''bio'', ''disney'']"

definition bills_kw :: "string list" where
  "bills_kw = [''telia'', ''telenor'', ''nte'', ''str'' @ oe @ ''m'', ''leie'', ''husleie'',
     ''forsikring'', ''tryg'']"

definition shopping_kw :: "string list" where
  "shopping_kw = [''klarna'', ''hm'', ''zara'', ''elkj'' @ oe @ ''p'', ''power'', ''ikea'',
     ''clas ohlson'', ''normal'', ''apotek'', ''vitus'', ''blomster'']"

definition income_kw :: "string list" where
  "income_kw = [''l'' @ oe @ ''nn'', ''salary'', ''deposit'',
     ''overf'' @ oe @ ''ring innland'', ''vipps'', ''straksoverf'' @ oe @ ''ring'']"

definition savings_label :: string where
  "savings_label = ''Savings '' @ [CHR 0xF0, CHR 0x9F, CHR 0x8F, CHR 0xA6]"
definition groceries_label :: string where
  "groceries_label = ''Groceries '' @ [CHR 0xF0, CHR 0x9F, CHR 0x9B, CHR 0x92]"
definition dining_label :: string where
  "dining_label = ''Food & Dining '' @ [CHR 0xF0, CHR 0x9F, CHR 0x8D, CHR 0x94]"
definition transport_label :: string where
  "transport_label = ''Transport '' @ [CHR 0xF0, CHR 0x9F, CHR 0x9A, CHR 0x86]"
definition entertainment_label :: string where
  "entertainment_label = ''Entertainment '' @ [CHR 0xF0, CHR 0x9F, CHR 0x8E, CHR 0xAC]"
definition bills_label :: string where
  "bills_label = ''Bills & Utilities '' @ [CHR 0xF0, CHR 0x9F, CHR 0x92, CHR 0xA1]"
definition shopping_label :: string where
  "shopping_label = ''Shopping '' @
     [CHR 0xF0, CHR 0x9F, CHR 0x9B, CHR 0x8D, CHR 0xEF, CHR 0xB8, CHR 0x8F]"
definition income_label :: string where
  "income_label = ''Income/Transfer '' @ [CHR 0xF0, CHR 0x9F, CHR 0x92, CHR 0xB0]"

definition categorize :: "pandas \<Rightarrow> cell \<Rightarrow> string" where
  "categorize L d =
     (let desc = lower L (py_str L d) in
      if contains savings_a desc \<and> contains savings_b desc then savings_label
      else if any_in groceries_kw desc then groceries_label
      else if any_in dining_kw desc then dining_label
      else if any_in transport_kw desc then transport_label
      else if any_in entertainment_kw desc then entertainment_label
      else if any_in bills_kw desc then bills_label
      else if any_in shopping_kw desc then shopping_label
      else if any_in income_kw desc then income_label
      else ''Other'')"

section \<open>Numeric cleaning\<close>

definition is_digit :: "char \<Rightarrow> bool" where
  "is_digit c = (c \<in> set ''0123456789'')"

definition is_space :: "char \<Rightarrow> bool" where
  "is_space c = (c \<in> set [CHR '' '', CHR 0x09, CHR 0x0A, CHR 0x0B, CHR 0x0C, CHR 0x0D])"

definition digit_val :: "char \<Rightarrow> nat" where
  "digit_val c =
     (case map_of (zip ''0123456789'' [0, 1, 2, 3, 4, 5, 6, 7, 8, 9]) c of
        Some n \<Rightarrow> n
      | None \<Rightarrow> 0)"

definition dec_val :: "string \<Rightarrow> nat" where
  "dec_val ds = foldl (\<lambda>n c. 10 * n + digit_val c) 0 ds"

definition sign_of :: "string \<Rightarrow> bool \<times> string" where
  "sign_of s =
     (case s of
        [] \<Rightarrow> (False, [])
      | c # r \<Rightarrow> if c = CHR ''-'' then (True, r) else if c = CHR ''+'' then (False, r)
                 else (False, s))"

definition fraction_of :: "string \<Rightarrow> string \<times> string" where
  "fraction_of s =
     (case s of
        [] \<Rightarrow> ([], [])
      | c # r \<Rightarrow> if c = CHR ''.'' then (takeWhile is_digit r, dropWhile is_digit r)
                 else ([], s))"

text \<open>An exponent without digits is not consumed: the \<open>e\<close> is then left in the rest.\<close>

definition exponent_of :: "string \<Rightarrow> (bool \<times> nat) \<times> string" where
  "exponent_of s =
     (case s of
        [] \<Rightarrow> ((False, 0), [])
      | c # r \<Rightarrow>
          if c = CHR ''e'' \<or> c = CHR ''E'' then
            (let (eneg, r1) = sign_of r; ed = takeWhile is_digit r1
             in if ed = [] then ((False, 0), s)
                else ((eneg, dec_val ed), dropWhile is_digit r1))
          else ((False, 0), s))"

text \<open>
  The number syntax of \<open>pd.to_numeric\<close>: white space, an optional sign, digits with an
  optional fraction (a digit on one side of the point is enough), an optional exponent,
  white space, and nothing else. \<open>None\<close> is a text outside that syntax.
\<close>

definition decimal_of :: "string \<Rightarrow> rat option" where
  "decimal_of s =
     (let (neg, s1) = sign_of (dropWhile is_space s);
          ip = takeWhile is_digit s1;
          (fp, s3) = fraction_of (dropWhile is_digit s1);
          ((eneg, e), s4) = exponent_of s3;
          m = of_nat (dec_val ip) + of_nat (dec_val fp) / 10 ^ length fp;
          v = (if eneg then m / 10 ^ e else m * 10 ^ e)
      in if ip = [] \<and> fp = [] then None
         else if dropWhile is_space s4 \<noteq> [] then None
         else Some (if neg then - v else v))"

text \<open>
  A float64 holds the decimals of magnitude below \<open>10 ^ 308\<close> (up to rounding, which the
  model leaves out); what becomes of a larger one, a number near it, an infinity or NaN,
  is the library's choice.
\<close>

definition in_range :: "pandas \<Rightarrow> rat \<Rightarrow> cell" where
  "in_range L v =
     (if \<bar>v\<bar> < 10 ^ 308 then Num v
      else (case out_of_range L v of Num w \<Rightarrow> Num w | Infty n \<Rightarrow> Infty n | _ \<Rightarrow> Null))"

text \<open>
  What \<open>pd.to_numeric(errors='coerce')\<close> makes of one text: the infinity words, in any
  case, are the infinities; a text in the number syntax is its value; every other text,
  the empty text and \<open>nan\<close> among them, is NaN.
\<close>

definition to_numeric_str :: "pandas \<Rightarrow> string \<Rightarrow> cell" where
  "to_numeric_str L s =
     (if map lower_char s \<in> set [''inf'', ''+inf'', ''infinity'', ''+infinity''] then Infty False
      else if map lower_char s \<in> set [''-inf'', ''-infinity''] then Infty True
      else (case decimal_of s of Some v \<Rightarrow> in_range L v | None \<Rightarrow> Null))"

text \<open>\<open>pd.to_numeric(column, errors='coerce')\<close>; a timestamp is read as its integer.\<close>

definition to_numeric_cell :: "pandas \<Rightarrow> cell \<Rightarrow> cell" where
  "to_numeric_cell L c =
     (case c of
        Str s \<Rightarrow> to_numeric_str L s
      | Stamp t \<Rightarrow> Num (of_int t)
      | _ \<Rightarrow> c)"

definition to_numeric :: "pandas \<Rightarrow> cell list \<Rightarrow> cell list" where
  "to_numeric L cells = map (to_numeric_cell L) cells"

definition fillna0 :: "cell list \<Rightarrow> cell list" where
  "fillna0 cells = map (\<lambda>c. if c = Null then Num 0 else c) cells"

text \<open>
  \<open>.str.lower().str.replace(',', '').str.replace('$', '').str.replace('kr', '')
  .str.replace(' ', '')\<close> on one text.
\<close>

definition clean_text :: "pandas \<Rightarrow> string \<Rightarrow> string" where
  "clean_text L s =
     remove_all '' '' (remove_all ''kr'' (remove_all ''$'' (remove_all '','' (lower L s))))"

text \<open>
  \<open>clean\<close> on one cell, \<open>astype(str)\<close> first. The text of a number or of an infinity
  holds none of the removed tokens, and \<open>to_numeric\<close>, the only reader of a cleaned
  column, reads it back as the same float: such a cell is kept as it is.
\<close>

definition clean_cell :: "pandas \<Rightarrow> cell \<Rightarrow> cell" where
  "clean_cell L c =
     (case c of
        Num x \<Rightarrow> Num x
      | Infty n \<Rightarrow> Infty n
      | _ \<Rightarrow> Str (clean_text L (py_str L c)))"

definition clean :: "pandas \<Rightarrow> cell list \<Rightarrow> cell list" where
  "clean L x = map (clean_cell L) x"

text \<open>\<open>pd.to_numeric(clean(column), errors='coerce').fillna(0)\<close>.\<close>

definition normalizer :: "pandas \<Rightarrow> cell list \<Rightarrow> cell list" where
  "normalizer L x = fillna0 (to_numeric L (clean L x))"

text \<open>Subtraction of two float columns, row by row.\<close>

definition sub_cell :: "pandas \<Rightarrow> cell \<Rightarrow> cell \<Rightarrow> cell" where
  "sub_cell L a b =
     (case (a, b) of
        (Num x, Num y) \<Rightarrow> in_range L (x - y)
      | (Infty n, Num y) \<Rightarrow> Infty n
      | (Num x, Infty n) \<Rightarrow> Infty (\<not> n)
      | (Infty n, Infty m) \<Rightarrow> if n = m then Null else Infty n
      | _ \<Rightarrow> Null)"

text \<open>\<open>dtype == 'object'\<close>: \<open>read_csv\<close> gives a column that dtype when a cell is a text.\<close>

definition is_object :: "cell list \<Rightarrow> bool" where
  "is_object cells = list_ex (\<lambda>c. case c of Str _ \<Rightarrow> True | _ \<Rightarrow> False) cells"

section \<open>The pipeline\<close>

definition on_ok :: "error + 'a \<Rightarrow> ('a \<Rightarrow> error + 'b) \<Rightarrow> error + 'b" where
  "on_ok m f = (case m of Inl e \<Rightarrow> Inl e | Inr x \<Rightarrow> f x)"

text \<open>\<open>df[name] = f(df[name])\<close>, where \<open>f\<close> may raise.\<close>

definition update_col ::
  "error \<Rightarrow> frame \<Rightarrow> string \<Rightarrow> (cell list \<Rightarrow> error + cell list) \<Rightarrow> error + frame" where
  "update_col dup df name f =
     on_ok (getcol dup df name) (\<lambda>cs. on_ok (f cs) (\<lambda>cs'. Inr (setcol df name cs')))"

definition date_col :: "pandas \<Rightarrow> string list \<Rightarrow> error + string" where
  "date_col L cols =
     (case cols of
        [] \<Rightarrow> Inl IndexError
      | c0 # _ \<Rightarrow>
          Inr (case next_col (\<lambda>c. contains ''date'' (lower L c) \<or> contains ''time'' (lower L c))
                      cols
               of Some c \<Rightarrow> c | None \<Rightarrow> c0))"

definition desc_col :: "pandas \<Rightarrow> string list \<Rightarrow> string option" where
  "desc_col L cols =
     (case next_col (\<lambda>c. contains ''desc'' (lower L c) \<or> contains ''merchant'' (lower L c)
                          \<or> contains ''name'' (lower L c)) cols of
        Some c \<Rightarrow> Some c
      | None \<Rightarrow> if length cols > 2 then Some (cols ! 2) else None)"

definition receive_col :: "pandas \<Rightarrow> string list \<Rightarrow> string option" where
  "receive_col L cols =
     next_col (\<lambda>c. contains ''receive'' (lower L c) \<or> contains ''credit'' (lower L c)
                   \<or> contains ''deposit'' (lower L c)) cols"

definition amount_col :: "pandas \<Rightarrow> string list \<Rightarrow> string option" where
  "amount_col L cols =
     next_col (\<lambda>c. lower L c \<in> set [''amount'', ''debit'', ''withdraw'', ''payment'']) cols"

definition cat_col :: "pandas \<Rightarrow> string list \<Rightarrow> string option" where
  "cat_col L cols = next_col (\<lambda>c. contains ''cat'' (lower L c)) cols"

text \<open>Lines 24 to 30: the date and description columns get their canonical names.\<close>

definition normalize_basics :: "pandas \<Rightarrow> frame \<Rightarrow> error + frame" where
  "normalize_basics L df =
     on_ok (date_col L (columns df)) (\<lambda>d.
       Inr (rename (entry (Some d) ''Date'' ++ entry (desc_col L (columns df)) ''Description'')
              df))"

text \<open>Lines 33 to 53: the amount, netted from two columns or renamed from one.\<close>

definition resolve_amount :: "pandas \<Rightarrow> frame \<Rightarrow> error + frame" where
  "resolve_amount L df =
     (case (receive_col L (columns df), amount_col L (columns df)) of
        (Some r, Some a) \<Rightarrow>
          on_ok (update_col AttributeError df r (\<lambda>x. Inr (normalizer L x))) (\<lambda>df1.
          on_ok (update_col AttributeError df1 a (\<lambda>x. Inr (normalizer L x))) (\<lambda>df2.
          on_ok (getcol ValueError df2 r) (\<lambda>rc.
          on_ok (getcol ValueError df2 a) (\<lambda>ac.
            Inr (setcol df2 ''Amount'' (map2 (sub_cell L) rc ac))))))
      | (_, a) \<Rightarrow>
          (let target_amt =
                 (case a of
                    Some n \<Rightarrow> Some n
                  | None \<Rightarrow> if length (columns df) > 1 then Some (columns df ! 1) else None)
           in Inr (rename (entry target_amt ''Amount'') df)))"

text \<open>Lines 57 to 74: the category, supplied by the table or computed from the description.\<close>

definition auto_categorize :: "pandas \<Rightarrow> frame \<Rightarrow> error + frame" where
  "auto_categorize L df =
     (case cat_col L (columns df) of
        Some c \<Rightarrow> Inr (rename (entry (Some c) ''Category'') df)
      | None \<Rightarrow>
          on_ok (getcol ValueError df ''Description'') (\<lambda>ds.
            Inr (setcol df ''Category'' (map (\<lambda>d. Str (categorize L d)) ds))))"

definition sample_data :: frame where
  "sample_data =
     [(''Date'', [Str ''2023-12-01'', Str ''2023-12-02'', Str ''2023-12-05'',
                  Str ''2023-12-08'', Str ''2023-12-10'']),
      (''Description'', [Str ''Grocery Store'', Str ''Salary'', Str ''Netflix'',
                         Str ''Gas Station'', Str ''Restaurant'']),
      (''Category'', [Str groceries_label,
                      Str (''Income '' @ [CHR 0xF0, CHR 0x9F, CHR 0x92, CHR 0xB0]),
                      Str entertainment_label, Str transport_label, Str dining_label]),
      (''Amount'', [Num (- 150), Num 3000, Num (- 15), Num (- 45), Num (- 60)])]"

text \<open>
  \<open>load_data\<close>. The uploaded table and the table of the local file \<open>statement.csv\<close> are
  given as \<open>read_csv\<close> parsed them; \<open>None\<close> is no upload and no such file.
\<close>

definition read_input :: "frame option \<Rightarrow> frame option \<Rightarrow> frame option" where
  "read_input uploaded_file statement_csv =
     (case uploaded_file of Some f \<Rightarrow> Some f | None \<Rightarrow> statement_csv)"

definition load_data :: "pandas \<Rightarrow> frame option \<Rightarrow> frame option \<Rightarrow> error + frame" where
  "load_data L uploaded_file statement_csv =
     (case read_input uploaded_file statement_csv of
        Some df \<Rightarrow>
          on_ok (normalize_basics L df) (\<lambda>df1.
          on_ok (resolve_amount L df1) (\<lambda>df2.
            auto_categorize L df2))
      | None \<Rightarrow> Inr sample_data)"

text \<open>\<open>pd.to_datetime(column)\<close>: one cell that cannot be read fails the conversion.\<close>

definition to_datetime_cell :: "pandas \<Rightarrow> cell \<Rightarrow> error + cell" where
  "to_datetime_cell L c =
     (case c of
        Null \<Rightarrow> Inr Null
      | Stamp t \<Rightarrow> Inr (Stamp t)
      | _ \<Rightarrow> (case parse_datetime L c of Some t \<Rightarrow> Inr (Stamp t) | None \<Rightarrow> Inl ValueError))"

fun to_datetime :: "pandas \<Rightarrow> cell list \<Rightarrow> error + cell list" where
  "to_datetime L [] = Inr []"
| "to_datetime L (c # cs) =
     on_ok (to_datetime_cell L c) (\<lambda>t. on_ok (to_datetime L cs) (\<lambda>ts. Inr (t # ts)))"

text \<open>Lines 94 to 98 of the script: the types of Date and Amount.\<close>

definition ensure_types :: "pandas \<Rightarrow> frame \<Rightarrow> error + frame" where
  "ensure_types L df =
     on_ok (update_col ValueError df ''Date'' (to_datetime L)) (\<lambda>df1.
     on_ok (getcol AttributeError df1 ''Amount'') (\<lambda>am.
     on_ok (if is_object am
            then update_col AttributeError df1 ''Amount'' (\<lambda>x. Inr (clean L x))
            else Inr df1) (\<lambda>df2.
       update_col AttributeError df2 ''Amount'' (\<lambda>x. Inr (fillna0 (to_numeric L x))))))"

definition pipeline :: "pandas \<Rightarrow> frame option \<Rightarrow> frame option \<Rightarrow> error + frame" where
  "pipeline L uploaded_file statement_csv =
     on_ok (load_data L uploaded_file statement_csv) (ensure_types L)"

text \<open>
  \<open>df['Amount'].sum()\<close> of a column of finite numbers (NaN is skipped); \<open>None\<close> when the
  column holds a cell that is not a finite number.
\<close>

definition col_sum :: "cell list \<Rightarrow> rat option" where
  "col_sum cells =
     (if list_all (\<lambda>c. case c of Num _ \<Rightarrow> True | Null \<Rightarrow> True | _ \<Rightarrow> False) cells
      then Some (sum_list (map (\<lambda>c. case c of Num x \<Rightarrow> x | _ \<Rightarrow> 0) cells))
      else None)"

section \<open>A library instance for evaluation\<close>

text \<open>
  One instance of the library parameters, to run the model on concrete tables: texts are
  lowercased on ASCII and Latin-1, numbers print as their integer part, dates are read in
  the form \<open>YYYY-MM-DD\<close>, and a decimal beyond the float64 range becomes an infinity.
\<close>

fun show_nat :: "nat \<Rightarrow> string" where
  "show_nat n =
     (if n < 10 then [''0123456789'' ! n]
      else show_nat (n div 10) @ [''0123456789'' ! (n mod 10)])"

definition iso_date :: "string \<Rightarrow> int option" where
  "iso_date s =
     (if length s = 10 \<and> s ! 4 = CHR ''-'' \<and> s ! 7 = CHR ''-''
         \<and> list_all is_digit (take 4 s) \<and> list_all is_digit (take 2 (drop 5 s))
         \<and> list_all is_digit (drop 8 s)
      then Some (int (dec_val (take 4 s)) * 10000 + int (dec_val (take 2 (drop 5 s))) * 100
                 + int (dec_val (drop 8 s)))
      else None)"

definition demo_str :: "cell \<Rightarrow> string" where
  "demo_str c =
     (case c of
        Num x \<Rightarrow> (if x < 0 then ''-'' else []) @ show_nat (nat \<bar>\<lfloor>x\<rfloor>\<bar>)
      | Infty n \<Rightarrow> (if n then ''-inf'' else ''inf'')
      | Stamp t \<Rightarrow> show_nat (nat t)
      | _ \<Rightarrow> [])"

definition demo_datetime :: "cell \<Rightarrow> int option" where
  "demo_datetime c = (case c of Str s \<Rightarrow> iso_date s | Num x \<Rightarrow> Some \<lfloor>x\<rfloor> | _ \<Rightarrow> None)"

definition demo :: pandas where
  "demo = \<lparr> str_lower = latin1_lower, scalar_str = demo_str,
            parse_datetime = demo_datetime, out_of_range = (\<lambda>v. Infty (v < 0)) \<rparr>"

section \<open>The categorizer as an ordered rule list\<close>

text \<open>
  The rule table of the specification: a rule fires on a lowercased description when both
  of its two tokens occur (the savings rule) or when any of its keywords occurs; the label
  is that of the first rule that fires, \<open>Other\<close> when none does.
\<close>

datatype trigger = Both string string | AnyOf "string list"

fun fires :: "trigger \<Rightarrow> string \<Rightarrow> bool" where
  "fires (Both a b) desc = (sublist a desc \<and> sublist b desc)"
| "fires (AnyOf ks) desc = (\<exists>k \<in> set ks. sublist k desc)"

definition spec_rules :: "(trigger \<times> string) list" where
  "spec_rules =
     [(Both savings_a savings_b, savings_label),
      (AnyOf groceries_kw, groceries_label),
      (AnyOf dining_kw, dining_label),
      (AnyOf transport_kw, transport_label),
      (AnyOf entertainment_kw, entertainment_label),
      (AnyOf bills_kw, bills_label),
      (AnyOf shopping_kw, shopping_label),
      (AnyOf income_kw, income_label)]"

definition spec_categorize :: "string \<Rightarrow> string" where
  "spec_categorize desc =
     (case filter (\<lambda>r. fires (fst r) desc) spec_rules of
        [] \<Rightarrow> ''Other''
      | r # _ \<Rightarrow> snd r)"

section \<open>Derived notions\<close>


text \<open>Lines 96 to 98 on the cells of the Amount column.\<close>

definition final_amount :: "pandas \<Rightarrow> cell list \<Rightarrow> cell list" where
  "final_amount L am = fillna0 (to_numeric L (if is_object am then clean L am else am))"

text \<open>A float that is not NaN: a number or an infinity.\<close>

definition is_num :: "cell \<Rightarrow> bool" where
  "is_num c = (case c of Num _ \<Rightarrow> True | Infty _ \<Rightarrow> True | _ \<Rightarrow> False)"

definition is_text :: "cell \<Rightarrow> bool" where
  "is_text c = (case c of Str _ \<Rightarrow> True | _ \<Rightarrow> False)"

text \<open>
  The five column variables of \<open>load_data\<close>, each with the value the code gives it:
  \<open>date_col\<close> and \<open>desc_col\<close> are computed on the raw table, \<open>receive_col\<close> and
  \<open>amount_col\<close> on the table after the first renaming, \<open>cat_col\<close> on the table after the
  amount has been resolved.
\<close>

record roles =
  date :: "string option"
  description :: "string option"
  credit :: "string option"
  debit :: "string option"
  category :: "string option"

definition inferred_roles :: "pandas \<Rightarrow> frame \<Rightarrow> error + roles" where
  "inferred_roles L df =
     on_ok (date_col L (columns df)) (\<lambda>d.
     on_ok (normalize_basics L df) (\<lambda>df1.
     on_ok (resolve_amount L df1) (\<lambda>df2.
       Inr \<lparr> date = Some d, description = desc_col L (columns df),
             credit = receive_col L (columns df1), debit = amount_col L (columns df1),
             category = cat_col L (columns df2) \<rparr>)))"

section \<open>The column roles of the specification\<close>

text \<open>
  The reference definition: each role is the first column name that passes the role's
  test, names compared in lower case, with the positional fallbacks of the date and the
  description.
\<close>

definition spec_first :: "(string \<Rightarrow> bool) \<Rightarrow> string list \<Rightarrow> string option" where
  "spec_first P names = (case filter P names of [] \<Rightarrow> None | n # _ \<Rightarrow> Some n)"

definition spec_has :: "pandas \<Rightarrow> string list \<Rightarrow> string \<Rightarrow> bool" where
  "spec_has L tokens name = (\<exists>t \<in> set tokens. sublist t (lower L name))"

definition spec_date :: "pandas \<Rightarrow> string list \<Rightarrow> string option" where
  "spec_date L names =
     (case spec_first (spec_has L [''date'', ''time'']) names of
        Some n \<Rightarrow> Some n
      | None \<Rightarrow> if 0 < length names then Some (names ! 0) else None)"

definition spec_description :: "pandas \<Rightarrow> string list \<Rightarrow> string option" where
  "spec_description L names =
     (case spec_first (spec_has L [''desc'', ''merchant'', ''name'']) names of
        Some n \<Rightarrow> Some n
      | None \<Rightarrow> if 2 < length names then Some (names ! 2) else None)"

definition spec_credit :: "pandas \<Rightarrow> string list \<Rightarrow> string option" where
  "spec_credit L names = spec_first (spec_has L [''receive'', ''credit'', ''deposit'']) names"

definition spec_debit :: "pandas \<Rightarrow> string list \<Rightarrow> string option" where
  "spec_debit L names =
     spec_first (\<lambda>n. lower L n \<in> {''amount'', ''debit'', ''withdraw'', ''payment''}) names"

definition spec_category :: "pandas \<Rightarrow> string list \<Rightarrow> string option" where
  "spec_category L names = spec_first (spec_has L [''cat'']) names"

definition spec_roles :: "pandas \<Rightarrow> string list \<Rightarrow> roles" where
  "spec_roles L names =
     \<lparr> date = spec_date L names, description = spec_description L names,
       credit = spec_credit L names, debit = spec_debit L names,
       category = spec_category L names \<rparr>"

section \<open>The decimal numerals of the specification\<close>



section \<open>Properties\<close>

lemma contains_sublist: "contains needle hay = sublist needle hay"
  by (induction hay) (auto simp: sublist_Cons_right)

lemma any_in_sublist: "any_in ks desc = (\<exists>k \<in> set ks. sublist k desc)"
  by (simp add: any_in_def list_ex_iff contains_sublist)

lemmas text_eval = lower_def is_ascii_def lower_char_def latin1_capitals_def oe_def
lemmas keyword_eval = savings_a_def savings_b_def groceries_kw_def dining_kw_def
  transport_kw_def entertainment_kw_def bills_kw_def shopping_kw_def income_kw_def
lemmas label_eval = savings_label_def groceries_label_def dining_label_def
  transport_label_def entertainment_label_def bills_label_def shopping_label_def
  income_label_def

subsection \<open>Frames\<close>

lemma getcol_Inr_iff:
  "getcol e df n = Inr cs \<longleftrightarrow> filter (\<lambda>c. fst c = n) df = [(n, cs)]"
proof (cases "filter (\<lambda>c. fst c = n) df")
  case Nil
  then show ?thesis by (simp add: getcol_def)
next
  case (Cons c rest)
  then have "c \<in> set (filter (\<lambda>c. fst c = n) df)" by simp
  then have "fst c = n" by simp
  with Cons show ?thesis
    by (cases rest; cases c) (auto simp: getcol_def)
qed

lemma on_ok_Inr_iff: "on_ok m f = Inr y \<longleftrightarrow> (\<exists>x. m = Inr x \<and> f x = Inr y)"
  by (cases m) (auto simp: on_ok_def)

lemma in_columns_iff: "n \<in> set (columns df) \<longleftrightarrow> filter (\<lambda>c. fst c = n) df \<noteq> []"
  by (induction df) (auto simp: columns_def)

lemma setcol_present:
  "filter (\<lambda>c. fst c = n) df = [(n, cs)] \<Longrightarrow>
   setcol df n cs' = map (\<lambda>c. if fst c = n then (n, cs') else c) df"
  by (simp add: setcol_def in_columns_iff)

lemma filter_map_other:
  "m \<noteq> n \<Longrightarrow>
   filter (\<lambda>c. fst c = m) (map (\<lambda>c. if fst c = n then (n, x) else c) df)
     = filter (\<lambda>c. fst c = m) df"
  by (induction df) auto

lemma filter_map_same:
  "filter (\<lambda>c. fst c = n) (map (\<lambda>c. if fst c = n then (n, x) else c) df)
     = map (\<lambda>c. (n, x)) (filter (\<lambda>c. fst c = n) df)"
  by (induction df) auto

lemma filter_setcol_other:
  "m \<noteq> n \<Longrightarrow> filter (\<lambda>c. fst c = m) (setcol df n x) = filter (\<lambda>c. fst c = m) df"
  by (simp add: setcol_def filter_map_other)

lemma filter_setcol_same:
  "filter (\<lambda>c. fst c = n) df = [(n, cs)] \<Longrightarrow>
   filter (\<lambda>c. fst c = n) (setcol df n x) = [(n, x)]"
  by (simp add: setcol_present filter_map_same)

lemma setcol_unchanged:
  "filter (\<lambda>c. fst c = n) df = [(n, cs)] \<Longrightarrow> setcol df n cs = df"
proof -
  assume a: "filter (\<lambda>c. fst c = n) df = [(n, cs)]"
  have "\<And>c. c \<in> set df \<Longrightarrow> fst c = n \<Longrightarrow> c = (n, cs)"
  proof -
    fix c assume "c \<in> set df" "fst c = n"
    then have "c \<in> set (filter (\<lambda>c. fst c = n) df)" by simp
    with a show "c = (n, cs)" by simp
  qed
  then have "map (\<lambda>c. if fst c = n then (n, cs) else c) df = df"
    by (intro map_idI) auto
  with a show ?thesis by (simp add: setcol_present)
qed

lemma setcol_setcol:
  "filter (\<lambda>c. fst c = n) df = [(n, cs)] \<Longrightarrow> setcol (setcol df n x) n y = setcol df n y"
proof -
  assume a: "filter (\<lambda>c. fst c = n) df = [(n, cs)]"
  then have "filter (\<lambda>c. fst c = n) (setcol df n x) = [(n, x)]"
    by (rule filter_setcol_same)
  then have "setcol (setcol df n x) n y = map (\<lambda>c. if fst c = n then (n, y) else c) (setcol df n x)"
    by (rule setcol_present)
  also have "\<dots> = map (\<lambda>c. if fst c = n then (n, y) else c) df"
    using a by (simp add: setcol_present comp_def)
  also have "\<dots> = setcol df n y"
    using a by (simp add: setcol_present)
  finally show ?thesis .
qed

lemma update_col_Inr_iff:
  "update_col e df n f = Inr df' \<longleftrightarrow>
   (\<exists>cs cs'. filter (\<lambda>c. fst c = n) df = [(n, cs)] \<and> f cs = Inr cs' \<and> df' = setcol df n cs')"
  by (auto simp: update_col_def on_ok_Inr_iff getcol_Inr_iff)

lemma to_datetime_cell_stable:
  "to_datetime_cell L c = Inr t \<Longrightarrow> to_datetime_cell L t = Inr t"
  by (auto simp: to_datetime_cell_def split: cell.splits option.splits)

lemma to_datetime_stable: "to_datetime L cs = Inr ts \<Longrightarrow> to_datetime L ts = Inr ts"
proof (induction cs arbitrary: ts)
  case Nil
  then show ?case by simp
next
  case (Cons c cs)
  then obtain t ts' where t: "to_datetime_cell L c = Inr t" and ts': "to_datetime L cs = Inr ts'"
    and eq: "ts = t # ts'"
    by (auto simp: on_ok_Inr_iff)
  from Cons.IH [OF ts'] to_datetime_cell_stable [OF t] eq show ?case
    by (simp add: on_ok_def)
qed

lemma in_range_cases: "in_range L v = Null \<or> is_num (in_range L v)"
  by (auto simp: in_range_def is_num_def split: cell.splits)

lemma to_numeric_str_cases: "to_numeric_str L s = Null \<or> is_num (to_numeric_str L s)"
  using in_range_cases [of L] by (auto simp: to_numeric_str_def is_num_def split: option.splits)

lemma to_numeric_cell_cases: "to_numeric_cell L c = Null \<or> is_num (to_numeric_cell L c)"
  using to_numeric_str_cases [of L] by (cases c) (auto simp: to_numeric_cell_def is_num_def)

lemma coerced_is_num: "list_all is_num (fillna0 (to_numeric L x))"
proof (induction x)
  case Nil
  then show ?case by (simp add: fillna0_def to_numeric_def)
next
  case (Cons c x)
  then show ?case
    using to_numeric_cell_cases [of L c]
    by (auto simp: fillna0_def to_numeric_def is_num_def)
qed

lemma num_not_object: "list_all is_num x \<Longrightarrow> \<not> is_object x"
  by (induction x) (auto simp: is_object_def is_num_def split: cell.splits)

lemma num_coerce_id: "list_all is_num x \<Longrightarrow> fillna0 (to_numeric L x) = x"
  by (induction x)
    (auto simp: fillna0_def to_numeric_def to_numeric_cell_def is_num_def split: cell.splits)


lemma ensure_types_Inr_iff:
  "ensure_types L df = Inr df' \<longleftrightarrow>
   (\<exists>ds ts am. filter (\<lambda>c. fst c = ''Date'') df = [(''Date'', ds)] \<and> to_datetime L ds = Inr ts \<and>
      filter (\<lambda>c. fst c = ''Amount'') df = [(''Amount'', am)] \<and>
      df' = setcol (setcol df ''Date'' ts) ''Amount'' (final_amount L am))"
  (is "?l \<longleftrightarrow> ?r")
proof
  assume ?l
  then obtain df1 am df2 where
    1: "update_col ValueError df ''Date'' (to_datetime L) = Inr df1" and
    2: "getcol AttributeError df1 ''Amount'' = Inr am" and
    3: "(if is_object am then update_col AttributeError df1 ''Amount'' (\<lambda>x. Inr (clean L x))
         else Inr df1) = Inr df2" and
    4: "update_col AttributeError df2 ''Amount'' (\<lambda>x. Inr (fillna0 (to_numeric L x))) = Inr df'"
    unfolding ensure_types_def on_ok_Inr_iff by blast
  from 1 obtain ds ts where d: "filter (\<lambda>c. fst c = ''Date'') df = [(''Date'', ds)]"
    and t: "to_datetime L ds = Inr ts" and df1: "df1 = setcol df ''Date'' ts"
    by (auto simp: update_col_Inr_iff)
  from 2 have a1: "filter (\<lambda>c. fst c = ''Amount'') df1 = [(''Amount'', am)]"
    by (simp add: getcol_Inr_iff)
  with df1 have a: "filter (\<lambda>c. fst c = ''Amount'') df = [(''Amount'', am)]"
    by (simp add: filter_setcol_other)
  show ?r
  proof (cases "is_object am")
    case True
    with 3 a1 have df2: "df2 = setcol df1 ''Amount'' (clean L am)"
      by (auto simp: update_col_Inr_iff)
    with a1 have a2: "filter (\<lambda>c. fst c = ''Amount'') df2 = [(''Amount'', clean L am)]"
      by (simp add: filter_setcol_same)
    with 4 have "df' = setcol df2 ''Amount'' (fillna0 (to_numeric L (clean L am)))"
      by (auto simp: update_col_Inr_iff)
    with df2 a1 have "df' = setcol df1 ''Amount'' (final_amount L am)"
      using True by (simp add: setcol_setcol final_amount_def)
    with d t a df1 show ?thesis by blast
  next
    case False
    with 3 have df2: "df2 = df1" by simp
    with 4 a1 have "df' = setcol df1 ''Amount'' (final_amount L am)"
      using False by (auto simp: update_col_Inr_iff final_amount_def)
    with d t a df1 show ?thesis by blast
  qed
next
  assume ?r
  then obtain ds ts am where d: "filter (\<lambda>c. fst c = ''Date'') df = [(''Date'', ds)]"
    and t: "to_datetime L ds = Inr ts"
    and a: "filter (\<lambda>c. fst c = ''Amount'') df = [(''Amount'', am)]"
    and df': "df' = setcol (setcol df ''Date'' ts) ''Amount'' (final_amount L am)"
    by blast
  let ?df1 = "setcol df ''Date'' ts"
  have a1: "filter (\<lambda>c. fst c = ''Amount'') ?df1 = [(''Amount'', am)]"
    using a by (simp add: filter_setcol_other)
  have 1: "update_col ValueError df ''Date'' (to_datetime L) = Inr ?df1"
    using d t by (auto simp: update_col_Inr_iff)
  have 2: "getcol AttributeError ?df1 ''Amount'' = Inr am"
    using a1 by (simp add: getcol_Inr_iff)
  show ?l
  proof (cases "is_object am")
    case True
    have a2: "filter (\<lambda>c. fst c = ''Amount'') (setcol ?df1 ''Amount'' (clean L am))
          = [(''Amount'', clean L am)]"
      using a1 by (simp add: filter_setcol_same)
    have "update_col AttributeError (setcol ?df1 ''Amount'' (clean L am)) ''Amount''
           (\<lambda>x. Inr (fillna0 (to_numeric L x))) = Inr df'"
      unfolding update_col_Inr_iff using a2 a1 df' True
      by (simp add: setcol_setcol final_amount_def)
    moreover have "update_col AttributeError ?df1 ''Amount'' (\<lambda>x. Inr (clean L x))
       = Inr (setcol ?df1 ''Amount'' (clean L am))"
      using a1 by (auto simp: update_col_Inr_iff)
    ultimately show ?thesis
      using 1 2 True by (simp add: ensure_types_def on_ok_def)
  next
    case False
    have "update_col AttributeError ?df1 ''Amount'' (\<lambda>x. Inr (fillna0 (to_numeric L x))) = Inr df'"
      unfolding update_col_Inr_iff using a1 df' False by (simp add: final_amount_def)
    then show ?thesis
      using 1 2 False by (simp add: ensure_types_def on_ok_def)
  qed
qed

lemma final_amount_stable: "final_amount L (final_amount L am) = final_amount L am"
proof -
  have n: "list_all is_num (final_amount L am)"
    by (simp add: final_amount_def coerced_is_num)
  then show ?thesis
    using num_not_object [OF n] num_coerce_id [OF n]
    by (simp add: final_amount_def [of L "final_amount L am"])
qed

subsection \<open>Numerals\<close>













lemmas frame_eval = on_ok_def update_col_def getcol_def setcol_def columns_def rename_def
  entry_def read_input_def
lemmas demo_eval = demo_def demo_datetime_def demo_str_def iso_date_def dec_val_def
  digit_val_def is_digit_def
lemmas coerce_eval = is_object_def fillna0_def to_numeric_def to_numeric_cell_def
  to_datetime_cell_def clean_def clean_cell_def

subsection \<open>The stages of the pipeline\<close>





lemma filter_rename:
  assumes "n \<notin> ran m"
  shows "filter (\<lambda>c. fst c = n) (rename m df)
         = (if m n = None then filter (\<lambda>c. fst c = n) df else [])"
proof -
  have k: "(case m k of Some v \<Rightarrow> v | None \<Rightarrow> k) = n \<longleftrightarrow> m n = None \<and> k = n" for k
    using assms by (auto simp: ran_def split: option.splits)
  show ?thesis
    by (induction df) (auto simp: rename_def k)
qed



lemma next_col_None: "next_col p cols = None \<longleftrightarrow> (\<forall>c \<in> set cols. \<not> p c)"
  by (auto simp: next_col_def find_None_iff)

lemma cat_name: "contains ''cat'' (lower L c) \<Longrightarrow> c \<notin> {''Date'', ''Description'', ''Amount''}"
  by (auto simp: text_eval)

lemma category_has_cat: "contains ''cat'' (lower L ''Category'')"
  by (simp add: text_eval)





lemma basics_ran:
  "ran (entry (Some d) ''Date'' ++ entry k ''Description'') \<subseteq> {''Date'', ''Description''}"
  by (auto simp: entry_def ran_def map_add_def split: option.splits if_splits)

lemma amount_ran: "ran (entry k ''Amount'') \<subseteq> {''Amount''}"
  by (auto simp: entry_def ran_def split: option.splits if_splits)

lemma category_ran: "ran (entry k ''Category'') \<subseteq> {''Category''}"
  by (auto simp: entry_def ran_def split: option.splits if_splits)




lemma filter_setcol_absent:
  "n \<notin> set (columns df) \<Longrightarrow> filter (\<lambda>c. fst c = n) (setcol df n x) = [(n, x)]"
proof -
  assume a: "n \<notin> set (columns df)"
  then have "filter (\<lambda>c. fst c = n) df = []"
    by (simp add: in_columns_iff)
  with a show ?thesis by (simp add: setcol_def)
qed









subsection \<open>Claims\<close>

text \<open>
  C1. A table of two columns, none of them description-like, and without a category
  column: the description role is absent, and the categorizer's read of the Description
  column aborts the run with a KeyError.
\<close>

theorem missing_description_aborts:
  "pipeline demo (Some [(''Date'', [Str ''2024-01-05'']), (''Amount'', [Str ''12''])]) None
     = Inl (KeyError ''Description'')"
  by (simp add: pipeline_def load_data_def normalize_basics_def resolve_amount_def
      auto_categorize_def on_ok_def date_col_def desc_col_def receive_col_def amount_col_def
      cat_col_def next_col_def columns_def rename_def entry_def getcol_def read_input_def
      text_eval)




text \<open>
  C5, as the code has it. The categorizer returns the label of the first rule of the
  ordered table (Savings, Groceries, Food and Dining, Transport, Entertainment, Bills and
  Utilities, Shopping, Income/Transfer) that fires on the stringified, lowercased
  description, and \<open>Other\<close> when none fires. A description with a grocery keyword and a
  restaurant keyword is labelled Groceries provided the two savings tokens do not both
  occur in it.
\<close>

theorem categorize_first_rule:
  "categorize L d = spec_categorize (lower L (py_str L d)) \<and>
   (any_in groceries_kw (lower L (py_str L d)) \<longrightarrow> any_in dining_kw (lower L (py_str L d)) \<longrightarrow>
    \<not> (contains savings_a (lower L (py_str L d)) \<and> contains savings_b (lower L (py_str L d))) \<longrightarrow>
    categorize L d = groceries_label)"
proof
  show "categorize L d = spec_categorize (lower L (py_str L d))"
    unfolding categorize_def spec_categorize_def spec_rules_def Let_def
    by (simp add: any_in_sublist contains_sublist)
next
  show "any_in groceries_kw (lower L (py_str L d)) \<longrightarrow> any_in dining_kw (lower L (py_str L d)) \<longrightarrow>
    \<not> (contains savings_a (lower L (py_str L d)) \<and> contains savings_b (lower L (py_str L d))) \<longrightarrow>
    categorize L d = groceries_label"
    unfolding categorize_def Let_def by simp
qed

theorem categorize_first_rule_witness:
  "any_in groceries_kw (lower demo (py_str demo (Str ''Rema Pizza''))) \<and>
   any_in dining_kw (lower demo (py_str demo (Str ''Rema Pizza''))) \<and>
   \<not> (contains savings_a (lower demo (py_str demo (Str ''Rema Pizza''))) \<and>
      contains savings_b (lower demo (py_str demo (Str ''Rema Pizza'')))) \<and>
   categorize demo (Str ''Rema Pizza'') = groceries_label \<and>
   spec_categorize (lower demo ''Rema Pizza'') = groceries_label"
  using categorize_first_rule [of demo "Str ''Rema Pizza''"]
  by (auto simp: py_str_def any_in_def text_eval keyword_eval)

text \<open>
  A description with a grocery keyword (\<open>rema\<close>) and a restaurant keyword (\<open>pizza\<close>) that
  also holds both savings tokens is labelled Savings, not Groceries.
\<close>

theorem groceries_not_always_counterexample:
  "any_in groceries_kw
     (lower demo (py_str demo (Str (''Kontoregulering Mobil Overf'' @ oe @ ''ring Rema Pizza'')))) \<and>
   any_in dining_kw
     (lower demo (py_str demo (Str (''Kontoregulering Mobil Overf'' @ oe @ ''ring Rema Pizza'')))) \<and>
   categorize demo (Str (''Kontoregulering Mobil Overf'' @ oe @ ''ring Rema Pizza''))
     = savings_label \<and>
   savings_label \<noteq> groceries_label"
  by (simp add: categorize_def py_str_def any_in_def demo_def text_eval keyword_eval
      label_eval)




text \<open>
  C8. With no uploaded file and no local file, \<open>load_data\<close> returns the built-in sample
  ledger and raises nothing; where the date parser reads the five sample dates, the pipeline
  returns that ledger with its dates converted: five rows, whose amounts sum to 2730.
\<close>

theorem sample_fallback:
  assumes "list_all (\<lambda>d. parse_datetime L (Str d) \<noteq> None)
             [''2023-12-01'', ''2023-12-02'', ''2023-12-05'', ''2023-12-08'', ''2023-12-10'']"
  shows "load_data L None None = Inr sample_data \<and>
         pipeline L None None
           = Inr (setcol sample_data ''Date''
               (map (\<lambda>d. Stamp (the (parse_datetime L (Str d))))
                 [''2023-12-01'', ''2023-12-02'', ''2023-12-05'', ''2023-12-08'',
                  ''2023-12-10''])) \<and>
         list_all (\<lambda>c. length (snd c) = 5) sample_data \<and>
         getcol e (setcol sample_data ''Date''
               (map (\<lambda>d. Stamp (the (parse_datetime L (Str d))))
                 [''2023-12-01'', ''2023-12-02'', ''2023-12-05'', ''2023-12-08'',
                  ''2023-12-10''])) ''Amount''
           = Inr [Num (- 150), Num 3000, Num (- 15), Num (- 45), Num (- 60)] \<and>
         col_sum [Num (- 150), Num 3000, Num (- 15), Num (- 45), Num (- 60)] = Some 2730"
proof (intro conjI)
  show "load_data L None None = Inr sample_data"
    by (simp add: load_data_def read_input_def)
  show "pipeline L None None
           = Inr (setcol sample_data ''Date''
               (map (\<lambda>d. Stamp (the (parse_datetime L (Str d))))
                 [''2023-12-01'', ''2023-12-02'', ''2023-12-05'', ''2023-12-08'',
                  ''2023-12-10'']))"
    using assms
    by (auto simp: pipeline_def load_data_def read_input_def ensure_types_def sample_data_def
        frame_eval coerce_eval)
  show "list_all (\<lambda>c. length (snd c) = 5) sample_data"
    by (simp add: sample_data_def)
  show "getcol e (setcol sample_data ''Date''
               (map (\<lambda>d. Stamp (the (parse_datetime L (Str d))))
                 [''2023-12-01'', ''2023-12-02'', ''2023-12-05'', ''2023-12-08'',
                  ''2023-12-10''])) ''Amount''
           = Inr [Num (- 150), Num 3000, Num (- 15), Num (- 45), Num (- 60)]"
    by (simp add: sample_data_def frame_eval)
  show "col_sum [Num (- 150), Num 3000, Num (- 15), Num (- 45), Num (- 60)] = Some 2730"
    by (simp add: col_sum_def)
qed

theorem sample_fallback_witness:
  "list_all (\<lambda>d. parse_datetime demo (Str d) \<noteq> None)
     [''2023-12-01'', ''2023-12-02'', ''2023-12-05'', ''2023-12-08'', ''2023-12-10''] \<and>
   load_data demo None None = Inr sample_data \<and>
   pipeline demo None None
     = Inr (setcol sample_data ''Date''
         [Stamp 20231201, Stamp 20231202, Stamp 20231205, Stamp 20231208, Stamp 20231210]) \<and>
   col_sum [Num (- 150), Num 3000, Num (- 15), Num (- 45), Num (- 60)] = Some 2730"
proof -
  have h: "list_all (\<lambda>d. parse_datetime demo (Str d) \<noteq> None)
     [''2023-12-01'', ''2023-12-02'', ''2023-12-05'', ''2023-12-08'', ''2023-12-10'']"
    by (simp add: demo_eval)
  from sample_fallback [OF h] h show ?thesis
    by (simp add: demo_eval)
qed

text \<open>
  C9. A second run of the final normalization pass (lines 94 to 98) on the ledger a first
  run produced returns that ledger unchanged.
\<close>

theorem ensure_types_idempotent:
  assumes "ensure_types L df = Inr df'"
  shows "ensure_types L df' = Inr df'"
proof -
  from assms obtain ds ts am where d: "filter (\<lambda>c. fst c = ''Date'') df = [(''Date'', ds)]"
    and t: "to_datetime L ds = Inr ts"
    and a: "filter (\<lambda>c. fst c = ''Amount'') df = [(''Amount'', am)]"
    and df': "df' = setcol (setcol df ''Date'' ts) ''Amount'' (final_amount L am)"
    unfolding ensure_types_Inr_iff by blast
  have a1: "filter (\<lambda>c. fst c = ''Amount'') (setcol df ''Date'' ts) = [(''Amount'', am)]"
    using a by (simp add: filter_setcol_other)
  have d': "filter (\<lambda>c. fst c = ''Date'') df' = [(''Date'', ts)]"
    using d by (simp add: df' filter_setcol_other filter_setcol_same)
  have a': "filter (\<lambda>c. fst c = ''Amount'') df' = [(''Amount'', final_amount L am)]"
    using a1 by (simp add: df' filter_setcol_same)
  have "setcol (setcol df' ''Date'' ts) ''Amount'' (final_amount L (final_amount L am)) = df'"
    using d' a' by (simp add: setcol_unchanged final_amount_stable)
  with d' a' to_datetime_stable [OF t] show ?thesis
    unfolding ensure_types_Inr_iff by metis
qed

theorem ensure_types_idempotent_witness:
  "ensure_types demo sample_data
     = Inr (setcol sample_data ''Date''
         [Stamp 20231201, Stamp 20231202, Stamp 20231205, Stamp 20231208, Stamp 20231210]) \<and>
   ensure_types demo (setcol sample_data ''Date''
         [Stamp 20231201, Stamp 20231202, Stamp 20231205, Stamp 20231208, Stamp 20231210])
     = Inr (setcol sample_data ''Date''
         [Stamp 20231201, Stamp 20231202, Stamp 20231205, Stamp 20231208, Stamp 20231210])"
proof -
  have 1: "ensure_types demo sample_data
     = Inr (setcol sample_data ''Date''
         [Stamp 20231201, Stamp 20231202, Stamp 20231205, Stamp 20231208, Stamp 20231210])"
    by (simp add: ensure_types_def sample_data_def frame_eval demo_eval coerce_eval)
  from 1 ensure_types_idempotent [OF 1] show ?thesis by simp
qed

end
